theory Spec2Isabelle
  imports Main "HOL-Library.Sublist"
begin

section \<open>JavaScript values used by both modules\<close>

text \<open>
  Strings are lists of code units. \<open>s.startsWith(p)\<close> is the prefix test,
  \<open>s.substring(n)\<close> drops the first \<open>n\<close> units (and is empty when \<open>n\<close> exceeds
  the length), a template literal is concatenation.
\<close>

definition startsWith :: "string \<Rightarrow> string \<Rightarrow> bool" where
  "startsWith s p = prefix p s"

definition substring :: "string \<Rightarrow> nat \<Rightarrow> string" where
  "substring s n = drop n s"

text \<open>
  \<open>Number.prototype.toString()\<close> on a port number: the decimal digits, most significant
  first, no sign and no leading zero. Port numbers are non-negative integers far below
  the range where JavaScript switches to exponent notation.
\<close>

definition digitChar :: "nat \<Rightarrow> char" where
  "digitChar d = ''0123456789'' ! (d mod 10)"

function toString :: "nat \<Rightarrow> string" where
  "toString n = (if n < 10 then [digitChar n] else toString (n div 10) @ [digitChar (n mod 10)])"
  by pat_completeness auto
termination
  by (relation "measure (\<lambda>n. n)") auto

declare toString.simps [simp del]

text \<open>
  \<open>parseInt(s, 10)\<close>: leading white space is skipped, one sign is accepted, then the
  longest run of decimal digits is read; with no digit the result is \<open>NaN\<close>, here
  \<open>None\<close>. Whatever follows the digits is ignored. Of the white space only the ASCII
  characters are modelled, and the value is the exact integer (a port number is far from
  the range where a JavaScript number loses digits).
\<close>

definition isWhiteSpace :: "char \<Rightarrow> bool" where
  "isWhiteSpace c = (c \<in> set [CHR '' '', CHR 0x09, CHR 0x0A, CHR 0x0B, CHR 0x0C, CHR 0x0D])"

definition isDigit :: "char \<Rightarrow> bool" where
  "isDigit c = (c \<in> set ''0123456789'')"

definition digitValue :: "char \<Rightarrow> nat" where
  "digitValue c = of_char c - 48"

definition digitsValue :: "string \<Rightarrow> nat" where
  "digitsValue ds = foldl (\<lambda>acc c. 10 * acc + digitValue c) 0 ds"

definition parseInt :: "string \<Rightarrow> int option" where
  "parseInt s =
     (let t = dropWhile isWhiteSpace s;
          neg = (case t of [] \<Rightarrow> False | c # r \<Rightarrow> c = CHR ''-'');
          u = (case t of [] \<Rightarrow> [] | c # r \<Rightarrow> if c = CHR ''-'' \<or> c = CHR ''+'' then r else t);
          ds = takeWhile isDigit u
      in if ds = [] then None
         else Some (if neg then - int (digitsValue ds) else int (digitsValue ds)))"

text \<open>
  A promise either resolves or rejects. \<open>TypeError\<close> is the engine's error on reading a
  property of \<open>undefined\<close>; \<open>Rejected\<close> is an error raised by a collaborator that is
  not part of this repository (workspace service, Kubernetes client, redirect listener).
\<close>

datatype error = TypeError | Rejected string

section \<open>Ports plugin: data\<close>

record WorkspacePort =
  portNumber :: string
  serverName :: string
  url :: string

record Port =
  interfaceListen :: string
  portNumber :: nat

record MessageItem =
  title :: string

definition LISTEN_ALL_IPV4 :: string where
  "LISTEN_ALL_IPV4 = ''0.0.0.0''"

definition LISTEN_ALL_IPV6 :: string where
  "LISTEN_ALL_IPV6 = ''::''"

definition SERVER_REDIRECT_PATTERN :: string where
  "SERVER_REDIRECT_PATTERN = ''theia-redirect-''"

text \<open>The two module-level variables of the plugin.\<close>

record plugin_state =
  workspacePorts :: "WorkspacePort list"
  redirectPorts :: "WorkspacePort list"

text \<open>
  What the plugin does to the outside, in the order it does it. The boolean of a message
  is the \<open>modal\<close> option passed to the window API. \<open>PortRedirectListenerStart l h r\<close> is
  \<open>new PortRedirectListener(l, h, r)\<close> followed by \<open>start()\<close>. The last four are the
  calls \<open>start\<close> makes on the port-changes detector.
\<close>

datatype effect =
    ShowErrorMessage string bool
  | ShowInformationMessage string bool "MessageItem list"
  | PortRedirectListenerStart "int option" string nat
  | ExecuteCommand string string
  | ConsoleInfo string
  | OnDidOpenPort
  | OnDidClosePort
  | DetectorInit
  | DetectorCheck

text \<open>
  What surrounds one call. \<open>answer h msg items\<close> is the item the user picks when the
  information message \<open>msg\<close> offers \<open>items\<close> (\<open>None\<close>: dismissed, the API resolves to
  \<open>undefined\<close>). \<open>listenerStart h l host r\<close> is \<open>Some e\<close> when constructing or starting
  the redirect listener throws \<open>e\<close>. The window and command APIs themselves are taken to
  resolve.

  The handlers are asynchronous, and the detector may call \<open>onOpenPort\<close> again while an
  earlier call still awaits an answer. After \<open>start\<close>, the one statement that writes a
  module variable is the \<open>pop\<close> in \<open>askRedirect\<close>; so all that the other calls can do
  to the module variables while a call is suspended is pop entries from the pool.
  \<open>poppedMeanwhile h\<close> is the number of \<open>pop\<close>s that other calls perform while the
  redirect question of this call is open: 0 when no confirmation of another call falls
  into that time.
\<close>

record host =
  answer :: "string \<Rightarrow> MessageItem list \<Rightarrow> MessageItem option"
  listenerStart :: "int option \<Rightarrow> string \<Rightarrow> nat \<Rightarrow> error option"
  poppedMeanwhile :: nat

text \<open>\<open>result && result.title === t\<close>\<close>

definition picked :: "MessageItem option \<Rightarrow> string \<Rightarrow> bool" where
  "picked result t = (case result of None \<Rightarrow> False | Some item \<Rightarrow> title item = t)"

section \<open>Ports plugin: messages\<close>

definition redirectEnabledMsg :: "Port \<Rightarrow> WorkspacePort \<Rightarrow> string" where
  "redirectEnabledMsg port workspacePort =
     ''Redirect is now enabled on port '' @ toString (portNumber port) @
     ''. External URL is '' @ url workspacePort"

definition internalDesc :: "Port \<Rightarrow> string" where
  "internalDesc port =
     ''A new process is now listening on port '' @ toString (portNumber port) @
     '' but is listening on interface '' @ interfaceListen port @ '' which is internal.'' @
     [CHR 0x0A] @
     ''        You should change to be remotely available. Would you want to add a redirect for this port so it becomes available ?''"

definition internalErr :: "Port \<Rightarrow> string" where
  "internalErr port =
     ''A new process is now listening on port '' @ toString (portNumber port) @
     '' but is listening on interface '' @ interfaceListen port @ '' which is internal.'' @
     [CHR 0x0A] @
     ''        This port is not available outside. You should change the code to listen on 0.0.0.0 for example.''"

definition openLinkMsg :: "WorkspacePort \<Rightarrow> string" where
  "openLinkMsg matchingWorkspacePort =
     ''A process is now listening on port '' @ WorkspacePort.portNumber matchingWorkspacePort @
     ''. External URL is '' @ url matchingWorkspacePort"

definition undeclaredDesc :: "Port \<Rightarrow> string" where
  "undeclaredDesc port =
     ''A new process is now listening on port '' @ toString (portNumber port) @
     '' but this port is not exposed in the workspace as a server.'' @
     [CHR 0x0A] @
     ''         Would you want to add a redirect for this port so it becomes available ?''"

definition undeclaredErr :: "Port \<Rightarrow> string" where
  "undeclaredErr port =
     ''A new process is now listening on port '' @ toString (portNumber port) @
     '' but this port is not exposed in the workspace as a server.'' @
     [CHR 0x0A] @
     ''         You should add a new server with this port in order to access it''"

definition openTrace :: "Port \<Rightarrow> string" where
  "openTrace port =
     ''The port '' @ toString (portNumber port) @
     '' is now listening on interface '' @ interfaceListen port"

definition closedTrace :: "Port \<Rightarrow> string" where
  "closedTrace port =
     ''The port '' @ toString (portNumber port) @
     '' is no longer listening on interface '' @ interfaceListen port"

section \<open>Ports plugin: operations\<close>

text \<open>
  An operation returns how its promise settles, the module variables as it leaves them,
  and the effects it had, oldest first.
\<close>

type_synonym outcome = "(error + unit) \<times> plugin_state \<times> effect list"

text \<open>
  The module variables as a call of \<open>askRedirect\<close> finds them when its question is
  answered: \<open>pop\<close> takes from the end of the array, and on an empty array it changes
  nothing.
\<close>

definition resumed :: "host \<Rightarrow> plugin_state \<Rightarrow> plugin_state" where
  "resumed h s =
     s\<lparr>redirectPorts := take (length (redirectPorts s) - poppedMeanwhile h) (redirectPorts s)\<rparr>"

text \<open>
  \<open>askRedirect\<close>. The length of the pool is tested when the call begins; the \<open>pop\<close>
  runs after the \<open>await\<close> of the question, on the pool as it is then. On an empty array
  \<open>pop()\<close> returns \<open>undefined\<close>, and reading \<open>workspacePort.portNumber\<close> for the
  listener throws a \<open>TypeError\<close> before any listener is built. Otherwise
  \<open>redirectPorts.pop()\<close> removes and returns the last element of the array; it runs
  before the listener is built, so a listener that throws leaves the pool one entry
  shorter. The state of the outcome is the module variables as the call last found or
  left them.
\<close>

definition askRedirect :: "host \<Rightarrow> Port \<Rightarrow> string \<Rightarrow> string \<Rightarrow> plugin_state \<Rightarrow> outcome" where
  "askRedirect h port redirectMessage errorMessage s =
     (if length (redirectPorts s) = 0 then
        (Inr (), s, [ShowErrorMessage errorMessage True])
      else
        let interactions = [\<lparr>title = ''yes''\<rparr>];
            ask = ShowInformationMessage redirectMessage True interactions;
            result = answer h redirectMessage interactions;
            s1 = resumed h s
        in if picked result ''yes'' then
             if redirectPorts s1 = [] then (Inl TypeError, s1, [ask])
             else
               let workspacePort = last (redirectPorts s1);
                   s' = s1\<lparr>redirectPorts := butlast (redirectPorts s1)\<rparr>;
                   localPort = parseInt (WorkspacePort.portNumber workspacePort);
                   listen = PortRedirectListenerStart localPort ''localhost'' (portNumber port)
               in case listenerStart h localPort ''localhost'' (portNumber port) of
                    Some e \<Rightarrow> (Inl e, s', [ask, listen])
                  | None \<Rightarrow>
                      let redirectInteractions = [\<lparr>title = ''Open Link''\<rparr>];
                          msg = redirectEnabledMsg port workspacePort;
                          resultShow = answer h msg redirectInteractions
                      in (Inr (), s',
                          [ask, listen, ShowInformationMessage msg True redirectInteractions] @
                          (if picked resultShow ''Open Link''
                           then [ExecuteCommand ''mini-browser.openUrl'' (url workspacePort)]
                           else []))
           else (Inr (), s1, [ask]))"

definition onOpenPort :: "host \<Rightarrow> Port \<Rightarrow> plugin_state \<Rightarrow> outcome" where
  "onOpenPort h port s =
     (if interfaceListen port \<noteq> LISTEN_ALL_IPV4 \<and> interfaceListen port \<noteq> LISTEN_ALL_IPV6 then
        askRedirect h port (internalDesc port) (internalErr port) s
      else
        case find (\<lambda>workspacePort. WorkspacePort.portNumber workspacePort = toString (portNumber port))
               (workspacePorts s) of
          Some matchingWorkspacePort \<Rightarrow>
            if startsWith (serverName matchingWorkspacePort) SERVER_REDIRECT_PATTERN then
              (Inr (), s, [])
            else
              let interactions = [\<lparr>title = ''Open Link''\<rparr>];
                  msg = openLinkMsg matchingWorkspacePort;
                  result = answer h msg interactions
              in (Inr (), s,
                  [ShowInformationMessage msg True interactions] @
                  (if picked result ''Open Link''
                   then [ExecuteCommand ''mini-browser.openUrl'' (url matchingWorkspacePort)]
                   else []) @
                  [ConsoleInfo (openTrace port)])
        | None \<Rightarrow>
            (case askRedirect h port (undeclaredDesc port) (undeclaredErr port) s of
               (Inl e, s', effs) \<Rightarrow> (Inl e, s', effs)
             | (Inr u, s', effs) \<Rightarrow> (Inr (), s', effs @ [ConsoleInfo (openTrace port)])))"

definition onClosedPort :: "Port \<Rightarrow> plugin_state \<Rightarrow> outcome" where
  "onClosedPort port s = (Inr (), s, [ConsoleInfo (closedTrace port)])"

text \<open>
  \<open>start\<close>. The workspace handler is not part of this repository: what
  \<open>getWorkspacePorts()\<close> settles to is the first argument. \<open>Array.prototype.filter\<close>
  builds a new array, so later \<open>pop\<close>s on \<open>redirectPorts\<close> cannot reach
  \<open>workspacePorts\<close>.
\<close>

definition start :: "error + WorkspacePort list \<Rightarrow> plugin_state \<Rightarrow> outcome" where
  "start fetched s =
     (case fetched of
        Inl e \<Rightarrow> (Inl e, s, [])
      | Inr ports \<Rightarrow>
          (Inr (),
           \<lparr>workspacePorts = ports,
            redirectPorts = filter (\<lambda>port. startsWith (serverName port) SERVER_REDIRECT_PATTERN) ports\<rparr>,
           [OnDidOpenPort, OnDidClosePort, DetectorInit, DetectorCheck]))"

text \<open>Reading an outcome.\<close>

definition settled :: "outcome \<Rightarrow> error + unit" where
  "settled r = fst r"

definition stateOf :: "outcome \<Rightarrow> plugin_state" where
  "stateOf r = fst (snd r)"

definition effectsOf :: "outcome \<Rightarrow> effect list" where
  "effectsOf r = snd (snd r)"

fun isListenerStart :: "effect \<Rightarrow> bool" where
  "isListenerStart (PortRedirectListenerStart l h r) = True"
| "isListenerStart e = False"

fun isConsoleInfo :: "effect \<Rightarrow> bool" where
  "isConsoleInfo (ConsoleInfo m) = True"
| "isConsoleInfo e = False"

fun isNonModalMessage :: "effect \<Rightarrow> bool" where
  "isNonModalMessage (ShowInformationMessage m modal items) = (\<not> modal)"
| "isNonModalMessage (ShowErrorMessage m modal) = (\<not> modal)"
| "isNonModalMessage e = False"

section \<open>Credentials service: data\<close>

text \<open>
  The part of the Kubernetes objects the service reads. Every field the client library
  declares optional is an option here; \<open>data\<close> is a dictionary from keys to strings.
\<close>

record V1ObjectMeta =
  name :: "string option"

record V1Secret =
  metadata :: "V1ObjectMeta option"
  data :: "(string \<rightharpoonup> string) option"

record Workspace =
  id' :: "string option"

record CredentialsChangeEvent =
  service :: string
  account :: string

text \<open>
  An element of what \<open>findCredentials\<close> returns. The password is whatever the secret's
  dictionary holds under the key \<open>password\<close>, \<open>undefined\<close> when it holds nothing.
\<close>

record Credential =
  account :: string
  password :: "string option"

text \<open>
  The calls the service makes, oldest first: the three requests to the Kubernetes API
  with their arguments, the firing of the change event, and \<open>console.error\<close>.
\<close>

datatype call =
    DeleteNamespacedSecret string string
  | ListNamespacedSecret string
  | CreateNamespacedSecret string V1Secret
  | Fire CredentialsChangeEvent
  | ConsoleError error

text \<open>
  How the remote side answers while one operation runs: the workspace service and the
  API of the cluster, neither part of this repository. A request that fails rejects with
  an error; \<open>createNamespacedSecret\<close> and \<open>deleteNamespacedSecret\<close> yield \<open>None\<close>
  when they succeed.
\<close>

record remote =
  currentWorkspace :: "error + Workspace"
  listNamespacedSecret :: "string \<Rightarrow> error + V1Secret list"
  createNamespacedSecret :: "string \<Rightarrow> V1Secret \<Rightarrow> error option"
  deleteNamespacedSecret :: "string \<Rightarrow> string \<Rightarrow> error option"

fun isFire :: "call \<Rightarrow> bool" where
  "isFire (Fire e) = True"
| "isFire c = False"

section \<open>Credentials service: operations\<close>

text \<open>\<open>workspace.id || ''\<close>\<close>

definition getWorkspaceId :: "remote \<Rightarrow> error + string" where
  "getWorkspaceId r =
     (case currentWorkspace r of
        Inl e \<Rightarrow> Inl e
      | Inr workspace \<Rightarrow>
          Inr (case id' workspace of None \<Rightarrow> [] | Some i \<Rightarrow> if i = [] then [] else i))"

text \<open>
  The callback of \<open>filter\<close> and \<open>find\<close>:
  \<open>secret.metadata && secret.metadata.name && secret.metadata.name.startsWith(service)\<close>.
  An empty name is falsy, so it never matches.
\<close>

definition nameStartsWith :: "string \<Rightarrow> V1Secret \<Rightarrow> bool" where
  "nameStartsWith svc secret =
     (case metadata secret of
        None \<Rightarrow> False
      | Some m \<Rightarrow>
          (case name m of
             None \<Rightarrow> False
           | Some n \<Rightarrow> n \<noteq> [] \<and> startsWith n svc))"

text \<open>\<open>`${service}_${account}`\<close>\<close>

definition secretName :: "string \<Rightarrow> string \<Rightarrow> string" where
  "secretName svc acct = svc @ ''_'' @ acct"

text \<open>The object \<open>setPassword\<close> sends to the cluster.\<close>

definition secretBody :: "string \<Rightarrow> string \<Rightarrow> string \<Rightarrow> V1Secret" where
  "secretBody svc acct pwd =
     \<lparr>metadata = Some \<lparr>name = Some (secretName svc acct)\<rparr>,
      data = Some [''password'' \<mapsto> pwd]\<rparr>"

text \<open>
  The callback of \<open>map\<close> in \<open>findCredentials\<close>. The non-null assertions of the source
  check nothing at run time: reading through an absent \<open>metadata\<close>, \<open>name\<close> or
  \<open>data\<close> throws.
\<close>

definition toCredential :: "string \<Rightarrow> V1Secret \<Rightarrow> error + Credential" where
  "toCredential svc secret =
     (case metadata secret of
        None \<Rightarrow> Inl TypeError
      | Some m \<Rightarrow>
          (case name m of
             None \<Rightarrow> Inl TypeError
           | Some n \<Rightarrow>
               (case data secret of
                  None \<Rightarrow> Inl TypeError
                | Some d \<Rightarrow>
                    Inr \<lparr>account = substring n (length svc + 1), password = d ''password''\<rparr>)))"

text \<open>\<open>Array.prototype.map\<close> with a callback that may throw: the first throw ends it.\<close>

fun mapThrowing :: "('a \<Rightarrow> error + 'b) \<Rightarrow> 'a list \<Rightarrow> error + 'b list" where
  "mapThrowing f [] = Inr []"
| "mapThrowing f (x # xs) =
     (case f x of
        Inl e \<Rightarrow> Inl e
      | Inr y \<Rightarrow> (case mapThrowing f xs of Inl e \<Rightarrow> Inl e | Inr ys \<Rightarrow> Inr (y # ys)))"

definition deletePassword :: "string \<Rightarrow> string \<Rightarrow> remote \<Rightarrow> bool \<times> call list" where
  "deletePassword svc acct r =
     (case getWorkspaceId r of
        Inl e \<Rightarrow> (False, [ConsoleError e])
      | Inr ns \<Rightarrow>
          (case deleteNamespacedSecret r (secretName svc acct) ns of
             Some e \<Rightarrow> (False, [DeleteNamespacedSecret (secretName svc acct) ns, ConsoleError e])
           | None \<Rightarrow>
               (True, [DeleteNamespacedSecret (secretName svc acct) ns,
                       Fire \<lparr>service = svc, CredentialsChangeEvent.account = acct\<rparr>])))"

definition findCredentials :: "string \<Rightarrow> remote \<Rightarrow> (error + Credential list) \<times> call list" where
  "findCredentials svc r =
     (case getWorkspaceId r of
        Inl e \<Rightarrow> (Inl e, [])
      | Inr ns \<Rightarrow>
          (case listNamespacedSecret r ns of
             Inl e \<Rightarrow> (Inl e, [ListNamespacedSecret ns])
           | Inr items \<Rightarrow>
               (mapThrowing (toCredential svc) (filter (nameStartsWith svc) items),
                [ListNamespacedSecret ns])))"

definition findPassword :: "string \<Rightarrow> remote \<Rightarrow> (error + string option) \<times> call list" where
  "findPassword svc r =
     (case getWorkspaceId r of
        Inl e \<Rightarrow> (Inl e, [])
      | Inr ns \<Rightarrow>
          (case listNamespacedSecret r ns of
             Inl e \<Rightarrow> (Inl e, [ListNamespacedSecret ns])
           | Inr items \<Rightarrow>
               ((case find (nameStartsWith svc) items of
                   None \<Rightarrow> Inr None
                 | Some item \<Rightarrow>
                     (case data item of
                        None \<Rightarrow> Inl TypeError
                      | Some d \<Rightarrow> Inr (d ''password''))),
                [ListNamespacedSecret ns])))"

definition getPassword :: "string \<Rightarrow> string \<Rightarrow> remote \<Rightarrow> (error + string option) \<times> call list" where
  "getPassword svc acct r =
     (case getWorkspaceId r of
        Inl e \<Rightarrow> (Inl e, [])
      | Inr ns \<Rightarrow>
          (case listNamespacedSecret r ns of
             Inl e \<Rightarrow> (Inl e, [ListNamespacedSecret ns])
           | Inr items \<Rightarrow>
               ((case find (nameStartsWith svc) items of
                   None \<Rightarrow> Inr None
                 | Some item \<Rightarrow>
                     (case data item of
                        None \<Rightarrow> Inl TypeError
                      | Some d \<Rightarrow> Inr (d ''password''))),
                [ListNamespacedSecret ns])))"

definition setPassword :: "string \<Rightarrow> string \<Rightarrow> string \<Rightarrow> remote \<Rightarrow> (error + unit) \<times> call list" where
  "setPassword svc acct pwd r =
     (case getWorkspaceId r of
        Inl e \<Rightarrow> (Inl e, [])
      | Inr ns \<Rightarrow>
          (case createNamespacedSecret r ns (secretBody svc acct pwd) of
             Some e \<Rightarrow> (Inl e, [CreateNamespacedSecret ns (secretBody svc acct pwd)])
           | None \<Rightarrow>
               (Inr (), [CreateNamespacedSecret ns (secretBody svc acct pwd),
                         Fire \<lparr>service = svc, CredentialsChangeEvent.account = acct\<rparr>])))"

section \<open>Scenarios\<close>

text \<open>
  Concrete users, workspaces and clusters, on which the theorems below are instantiated.
  The declared ports are those of the end-to-end scenario: a web application on 3000 and
  one reserved redirect target on 9000.
\<close>

fun clickFirst :: "string \<Rightarrow> MessageItem list \<Rightarrow> MessageItem option" where
  "clickFirst msg [] = None"
| "clickFirst msg (item # items) = Some item"

fun dismiss :: "string \<Rightarrow> MessageItem list \<Rightarrow> MessageItem option" where
  "dismiss msg items = None"

fun listenerOk :: "int option \<Rightarrow> string \<Rightarrow> nat \<Rightarrow> error option" where
  "listenerOk l h r = None"

fun listenerThrows :: "int option \<Rightarrow> string \<Rightarrow> nat \<Rightarrow> error option" where
  "listenerThrows l h r = Some (Rejected ''EADDRINUSE'')"

definition acceptingUser :: host where
  "acceptingUser = \<lparr>answer = clickFirst, listenerStart = listenerOk, poppedMeanwhile = 0\<rparr>"

definition dismissingUser :: host where
  "dismissingUser = \<lparr>answer = dismiss, listenerStart = listenerOk, poppedMeanwhile = 0\<rparr>"

definition failingListener :: host where
  "failingListener = \<lparr>answer = clickFirst, listenerStart = listenerThrows, poppedMeanwhile = 0\<rparr>"

text \<open>
  A user who accepts, in a call during whose question another call took one entry from
  the pool.
\<close>

definition overtakenUser :: host where
  "overtakenUser = \<lparr>answer = clickFirst, listenerStart = listenerOk, poppedMeanwhile = 1\<rparr>"

definition webapp :: WorkspacePort where
  "webapp = \<lparr>WorkspacePort.portNumber = ''3000'', serverName = ''webapp'', url = ''https://x/3000''\<rparr>"

definition redirect1 :: WorkspacePort where
  "redirect1 = \<lparr>WorkspacePort.portNumber = ''9000'', serverName = ''theia-redirect-1'', url = ''https://x/9000''\<rparr>"

definition api :: WorkspacePort where
  "api = \<lparr>WorkspacePort.portNumber = ''4000'', serverName = ''api'', url = ''https://x/4000''\<rparr>"

text \<open>A reserved redirect target declared on the number of the web application.\<close>

definition redirect3000 :: WorkspacePort where
  "redirect3000 = \<lparr>WorkspacePort.portNumber = ''3000'', serverName = ''theia-redirect-x'',
                    url = ''https://x/r3000''\<rparr>"

definition started :: plugin_state where
  "started = \<lparr>workspacePorts = [webapp, redirect1], redirectPorts = [redirect1]\<rparr>"

definition exhausted :: plugin_state where
  "exhausted = \<lparr>workspacePorts = [webapp, redirect1], redirectPorts = []\<rparr>"

definition startedWithApi :: plugin_state where
  "startedWithApi = \<lparr>workspacePorts = [api, redirect1], redirectPorts = [redirect1]\<rparr>"

definition reservedSecond :: plugin_state where
  "reservedSecond = \<lparr>workspacePorts = [webapp, redirect3000], redirectPorts = [redirect3000]\<rparr>"

definition reservedFirst :: plugin_state where
  "reservedFirst = \<lparr>workspacePorts = [redirect3000, webapp], redirectPorts = [redirect3000]\<rparr>"

definition port3000 :: Port where
  "port3000 = \<lparr>interfaceListen = ''0.0.0.0'', portNumber = 3000\<rparr>"

definition port4000 :: Port where
  "port4000 = \<lparr>interfaceListen = ''127.0.0.1'', portNumber = 4000\<rparr>"

definition port5000 :: Port where
  "port5000 = \<lparr>interfaceListen = ''0.0.0.0'', portNumber = 5000\<rparr>"

definition port5001 :: Port where
  "port5001 = \<lparr>interfaceListen = ''0.0.0.0'', portNumber = 5001\<rparr>"

definition port9000 :: Port where
  "port9000 = \<lparr>interfaceListen = ''::'', portNumber = 9000\<rparr>"

text \<open>
  A cluster whose workspace namespace \<open>ws1\<close> lists the secret of \<open>bob\<close> at \<open>git\<close>;
  one that also lists a secret without data whose name begins with \<open>git\<close>; and one that
  refuses every request.
\<close>

definition tokenSecret :: V1Secret where
  "tokenSecret = \<lparr>metadata = Some \<lparr>name = Some ''github-token''\<rparr>, data = None\<rparr>"

fun listGit :: "string \<Rightarrow> error + V1Secret list" where
  "listGit ns = (if ns = ''ws1'' then Inr [secretBody ''git'' ''bob'' ''pw''] else Inr [])"

fun listGitAndToken :: "string \<Rightarrow> error + V1Secret list" where
  "listGitAndToken ns =
     (if ns = ''ws1'' then Inr [secretBody ''git'' ''bob'' ''pw'', tokenSecret] else Inr [])"

fun listRefused :: "string \<Rightarrow> error + V1Secret list" where
  "listRefused ns = Inl (Rejected ''403'')"

fun createOk :: "string \<Rightarrow> V1Secret \<Rightarrow> error option" where
  "createOk ns body = None"

fun createRefused :: "string \<Rightarrow> V1Secret \<Rightarrow> error option" where
  "createRefused ns body = Some (Rejected ''403'')"

fun deleteOk :: "string \<Rightarrow> string \<Rightarrow> error option" where
  "deleteOk n ns = None"

fun deleteRefused :: "string \<Rightarrow> string \<Rightarrow> error option" where
  "deleteRefused n ns = Some (Rejected ''404'')"

definition cluster :: remote where
  "cluster = \<lparr>currentWorkspace = Inr \<lparr>id' = Some ''ws1''\<rparr>,
              listNamespacedSecret = listGit,
              createNamespacedSecret = createOk,
              deleteNamespacedSecret = deleteOk\<rparr>"

definition clusterWithToken :: remote where
  "clusterWithToken = \<lparr>currentWorkspace = Inr \<lparr>id' = Some ''ws1''\<rparr>,
              listNamespacedSecret = listGitAndToken,
              createNamespacedSecret = createOk,
              deleteNamespacedSecret = deleteOk\<rparr>"

definition refusingCluster :: remote where
  "refusingCluster = \<lparr>currentWorkspace = Inr \<lparr>id' = Some ''ws1''\<rparr>,
              listNamespacedSecret = listRefused,
              createNamespacedSecret = createRefused,
              deleteNamespacedSecret = deleteRefused\<rparr>"

section \<open>Auxiliary facts\<close>

lemmas scenario_defs =
  acceptingUser_def dismissingUser_def failingListener_def overtakenUser_def
  webapp_def redirect1_def api_def redirect3000_def
  started_def exhausted_def startedWithApi_def reservedSecond_def reservedFirst_def
  port3000_def port4000_def port5000_def port5001_def port9000_def

lemmas js_defs =
  startsWith_def substring_def digitChar_def toString.simps
  parseInt_def isWhiteSpace_def isDigit_def digitValue_def digitsValue_def
  LISTEN_ALL_IPV4_def LISTEN_ALL_IPV6_def SERVER_REDIRECT_PATTERN_def picked_def

lemma find_filter: "find P xs = (case filter P xs of [] \<Rightarrow> None | x # rest \<Rightarrow> Some x)"
  by (induction xs) auto

text \<open>Everything \<open>askRedirect\<close> can do to the outside.\<close>

lemma askRedirect_effects:
  "set (effectsOf (askRedirect h port rm em s)) \<subseteq>
     {ShowErrorMessage em True,
      ShowInformationMessage rm True [\<lparr>title = ''yes''\<rparr>],
      PortRedirectListenerStart (parseInt (WorkspacePort.portNumber (last (redirectPorts (resumed h s)))))
        ''localhost'' (portNumber port),
      ShowInformationMessage (redirectEnabledMsg port (last (redirectPorts (resumed h s)))) True
        [\<lparr>title = ''Open Link''\<rparr>],
      ExecuteCommand ''mini-browser.openUrl'' (url (last (redirectPorts (resumed h s))))}"
  by (auto simp: askRedirect_def effectsOf_def Let_def split: option.splits)

lemma askRedirect_first_effect:
  "effectsOf (askRedirect h port rm em s) \<noteq> [] \<and>
   hd (effectsOf (askRedirect h port rm em s)) =
     (if redirectPorts s = [] then ShowErrorMessage em True
      else ShowInformationMessage rm True [\<lparr>title = ''yes''\<rparr>])"
  by (simp add: askRedirect_def effectsOf_def Let_def split: option.splits)

lemma askRedirect_workspacePorts:
  "workspacePorts (stateOf (askRedirect h port rm em s)) = workspacePorts s"
  by (simp add: askRedirect_def resumed_def stateOf_def Let_def split: option.splits)

text \<open>\<open>askRedirect\<close> itself writes nothing to the console.\<close>

lemma askRedirect_no_trace:
  "filter isConsoleInfo (effectsOf (askRedirect h port rm em s)) = []"
  by (simp add: askRedirect_def effectsOf_def Let_def split: option.splits)

text \<open>
  A call whose question no \<open>pop\<close> of another call overlaps: a confirmation on a pool
  that was not empty takes its last entry and starts one listener, whether or not the
  listener then throws; anything else leaves the module variables alone.
\<close>

lemma askRedirect_undisturbed:
  assumes "poppedMeanwhile h = 0"
  shows "(redirectPorts s \<noteq> [] \<and> picked (answer h rm [\<lparr>title = ''yes''\<rparr>]) ''yes'' \<longrightarrow>
      redirectPorts s = redirectPorts (stateOf (askRedirect h port rm em s)) @ [last (redirectPorts s)] \<and>
      filter isListenerStart (effectsOf (askRedirect h port rm em s)) =
        [PortRedirectListenerStart (parseInt (WorkspacePort.portNumber (last (redirectPorts s))))
           ''localhost'' (portNumber port)]) \<and>
   (\<not> (redirectPorts s \<noteq> [] \<and> picked (answer h rm [\<lparr>title = ''yes''\<rparr>]) ''yes'') \<longrightarrow>
      stateOf (askRedirect h port rm em s) = s \<and>
      filter isListenerStart (effectsOf (askRedirect h port rm em s)) = [])"
  using assms
  by (auto simp add: askRedirect_def resumed_def stateOf_def effectsOf_def Let_def split: option.splits)

text \<open>
  A call on a pool that was not empty, whose question is confirmed after the other calls
  have popped every entry: a \<open>TypeError\<close>, after the question alone.
\<close>

lemma askRedirect_overtaken:
  assumes "redirectPorts s \<noteq> []" and "picked (answer h rm [\<lparr>title = ''yes''\<rparr>]) ''yes''"
    and "length (redirectPorts s) \<le> poppedMeanwhile h"
  shows "askRedirect h port rm em s =
           (Inl TypeError, s\<lparr>redirectPorts := []\<rparr>,
            [ShowInformationMessage rm True [\<lparr>title = ''yes''\<rparr>]])"
  using assms by (simp add: askRedirect_def resumed_def Let_def)

text \<open>
  The text of the direct prompt begins \<open>A process\<close>; the texts \<open>onOpenPort\<close> hands to
  \<open>askRedirect\<close> begin \<open>A new process\<close>, and the follow-up of a redirect begins
  \<open>Redirect\<close>.
\<close>

lemma openLinkMsg_ne_internalDesc: "openLinkMsg wp \<noteq> internalDesc port"
  by (simp add: openLinkMsg_def internalDesc_def)

lemma openLinkMsg_ne_redirectEnabledMsg: "openLinkMsg wp \<noteq> redirectEnabledMsg port wp'"
  by (simp add: openLinkMsg_def redirectEnabledMsg_def)

text \<open>
  \<open>onOpenPort\<close> for a port on a wildcard interface that the lookup in
  \<open>workspacePorts\<close> does not find.
\<close>

lemma onOpenPort_not_found:
  assumes "interfaceListen port = LISTEN_ALL_IPV4 \<or> interfaceListen port = LISTEN_ALL_IPV6"
    and "find (\<lambda>workspacePort. WorkspacePort.portNumber workspacePort = toString (portNumber port))
           (workspacePorts s) = None"
    and "askRedirect h port (undeclaredDesc port) (undeclaredErr port) s = (r, s', effs)"
  shows "onOpenPort h port s =
           (r, s', if r = Inr () then effs @ [ConsoleInfo (openTrace port)] else effs)"
  using assms by (cases r) (auto simp add: onOpenPort_def)

text \<open>Strings and the credentials mapping.\<close>

lemma substring_secretName: "substring (secretName svc acct) (Suc (length svc)) = acct"
  by (induction svc) (simp_all add: substring_def secretName_def)

lemma toCredential_secretBody:
  "toCredential svc (secretBody svc acct pwd) = Inr \<lparr>account = acct, password = Some pwd\<rparr>"
  by (simp add: toCredential_def secretBody_def substring_secretName)

lemma nameStartsWith_secretBody: "nameStartsWith svc (secretBody svc acct pwd)"
  by (simp add: nameStartsWith_def secretBody_def secretName_def startsWith_def)

lemma toCredential_defined:
  assumes "nameStartsWith svc secret" and "data secret \<noteq> None"
  shows "\<exists>c. toCredential svc secret = Inr c"
  using assms by (auto simp add: nameStartsWith_def toCredential_def split: option.splits)

lemma mapThrowing_total:
  assumes "\<forall>x \<in> set xs. \<exists>y. f x = Inr y"
  shows "\<exists>ys. mapThrowing f xs = Inr ys \<and> (\<forall>x \<in> set xs. \<forall>y. f x = Inr y \<longrightarrow> y \<in> set ys)"
  using assms
proof (induction xs)
  case Nil
  then show ?case by simp
next
  case (Cons a xs)
  then obtain y where y: "f a = Inr y" by auto
  from Cons obtain ys where ys: "mapThrowing f xs = Inr ys"
    "\<forall>x \<in> set xs. \<forall>y. f x = Inr y \<longrightarrow> y \<in> set ys" by auto
  from y ys show ?case by auto
qed

section \<open>Ports plugin: the policy on an opened port\<close>

text \<open>
  C1. For an opened port whose interface is neither \<open>0.0.0.0\<close> nor \<open>::\<close>,
  \<open>onOpenPort\<close> is the redirect flow \<open>askRedirect\<close> with the two texts about an
  internal interface, whatever \<open>workspacePorts\<close> declares: its first effect is the
  redirect question, or the error message when the pool is empty, and the direct
  open-link prompt (the information message with the text \<open>openLinkMsg\<close> of some
  declared port) is not among its effects.
\<close>

theorem onOpenPort_internal_interface:
  assumes "interfaceListen port \<noteq> LISTEN_ALL_IPV4" and "interfaceListen port \<noteq> LISTEN_ALL_IPV6"
  shows "onOpenPort h port s = askRedirect h port (internalDesc port) (internalErr port) s \<and>
         hd (effectsOf (onOpenPort h port s)) =
           (if redirectPorts s = [] then ShowErrorMessage (internalErr port) True
            else ShowInformationMessage (internalDesc port) True [\<lparr>title = ''yes''\<rparr>]) \<and>
         (\<forall>wp modal items.
            ShowInformationMessage (openLinkMsg wp) modal items
              \<notin> set (effectsOf (onOpenPort h port s)))"
proof -
  have eq: "onOpenPort h port s = askRedirect h port (internalDesc port) (internalErr port) s"
    using assms by (simp add: onOpenPort_def)
  have "ShowInformationMessage (openLinkMsg wp) modal items
          \<notin> set (effectsOf (askRedirect h port (internalDesc port) (internalErr port) s))"
    for wp modal items
    using askRedirect_effects [of h port "internalDesc port" "internalErr port" s]
      openLinkMsg_ne_internalDesc [of wp port]
      openLinkMsg_ne_redirectEnabledMsg [of wp port "last (redirectPorts (resumed h s))"]
    by auto
  with eq askRedirect_first_effect [of h port "internalDesc port" "internalErr port" s]
  show ?thesis by simp
qed

text \<open>
  Port 4000 on the loopback interface, declared as the server \<open>api\<close>: the user is still
  offered the redirect, accepts it, and the reserved port 9000 forwards to 4000.
\<close>

theorem onOpenPort_internal_interface_witness:
  "interfaceListen port4000 \<noteq> LISTEN_ALL_IPV4 \<and> interfaceListen port4000 \<noteq> LISTEN_ALL_IPV6 \<and>
   api \<in> set (workspacePorts startedWithApi) \<and>
   WorkspacePort.portNumber api = toString (portNumber port4000) \<and>
   effectsOf (onOpenPort acceptingUser port4000 startedWithApi) =
     [ShowInformationMessage (internalDesc port4000) True [\<lparr>title = ''yes''\<rparr>],
      PortRedirectListenerStart (Some 9000) ''localhost'' 4000,
      ShowInformationMessage (redirectEnabledMsg port4000 redirect1) True [\<lparr>title = ''Open Link''\<rparr>],
      ExecuteCommand ''mini-browser.openUrl'' ''https://x/9000'']"
proof -
  have a: "interfaceListen port4000 \<noteq> LISTEN_ALL_IPV4"
    by (simp add: port4000_def LISTEN_ALL_IPV4_def)
  have b: "interfaceListen port4000 \<noteq> LISTEN_ALL_IPV6"
    by (simp add: port4000_def LISTEN_ALL_IPV6_def)
  have c: "effectsOf (askRedirect acceptingUser port4000 (internalDesc port4000) (internalErr port4000)
             startedWithApi) =
     [ShowInformationMessage (internalDesc port4000) True [\<lparr>title = ''yes''\<rparr>],
      PortRedirectListenerStart (Some 9000) ''localhost'' 4000,
      ShowInformationMessage (redirectEnabledMsg port4000 redirect1) True [\<lparr>title = ''Open Link''\<rparr>],
      ExecuteCommand ''mini-browser.openUrl'' ''https://x/9000'']"
    by (simp add: askRedirect_def resumed_def effectsOf_def scenario_defs js_defs Let_def)
  have d: "api \<in> set (workspacePorts startedWithApi)" by (simp add: startedWithApi_def)
  have e: "WorkspacePort.portNumber api = toString (portNumber port4000)"
    by (simp add: scenario_defs js_defs)
  from onOpenPort_internal_interface [OF a b, of acceptingUser startedWithApi] a b c d e
  show ?thesis by simp
qed

section \<open>Ports plugin: the redirect pool\<close>

text \<open>
  C2. With an empty redirect pool \<open>askRedirect\<close> resolves after a single effect, the
  modal error message carrying the caller's \<open>errorMessage\<close>: no confirmation is asked,
  nothing is taken from the pool, no listener is started, and the module variables are
  what they were, the pool still empty.
\<close>

theorem askRedirect_empty_pool:
  assumes "redirectPorts s = []"
  shows "askRedirect h port redirectMessage errorMessage s =
           (Inr (), s, [ShowErrorMessage errorMessage True])"
  using assms by (simp add: askRedirect_def)

text \<open>The scenario of port 4000 on the loopback interface with an exhausted pool.\<close>

theorem askRedirect_empty_pool_witness:
  "redirectPorts exhausted = [] \<and>
   askRedirect dismissingUser port4000 (internalDesc port4000) (internalErr port4000) exhausted =
     (Inr (), exhausted, [ShowErrorMessage (internalErr port4000) True])"
proof -
  have e: "redirectPorts exhausted = []" by (simp add: exhausted_def)
  from askRedirect_empty_pool [OF e] e show ?thesis by simp
qed

text \<open>
  C3. Every confirmation of a redirect question that was asked on a pool with an entry
  should take exactly one entry from the pool and start one listener, from the port of
  that entry to \<open>localhost\<close> and the opened port. The code tests the pool before it
  awaits the question and pops after it. Take the pool of one reserved port and two
  undeclared ports, 5000 and 5001, opened so that both questions are open together: both
  calls pass the test. The question for 5000 is confirmed first: that call takes the
  entry 9000 and starts the listener. The question for 5001 is confirmed next: its
  \<open>pop\<close> finds the pool empty, the call rejects with a \<open>TypeError\<close>, it takes nothing
  from the pool, starts no listener and shows no message that no port is left.
\<close>

theorem askRedirect_overlapping:
  "redirectPorts started = [redirect1] \<and>
   askRedirect acceptingUser port5000 (undeclaredDesc port5000) (undeclaredErr port5000) started =
     (Inr (), exhausted,
      [ShowInformationMessage (undeclaredDesc port5000) True [\<lparr>title = ''yes''\<rparr>],
       PortRedirectListenerStart (Some 9000) ''localhost'' 5000,
       ShowInformationMessage (redirectEnabledMsg port5000 redirect1) True [\<lparr>title = ''Open Link''\<rparr>],
       ExecuteCommand ''mini-browser.openUrl'' ''https://x/9000'']) \<and>
   poppedMeanwhile overtakenUser = 1 \<and>
   resumed overtakenUser started = exhausted \<and>
   picked (answer overtakenUser (undeclaredDesc port5001) [\<lparr>title = ''yes''\<rparr>]) ''yes'' \<and>
   askRedirect overtakenUser port5001 (undeclaredDesc port5001) (undeclaredErr port5001) started =
     (Inl TypeError, exhausted,
      [ShowInformationMessage (undeclaredDesc port5001) True [\<lparr>title = ''yes''\<rparr>]]) \<and>
   filter isListenerStart
     (effectsOf (askRedirect overtakenUser port5001 (undeclaredDesc port5001) (undeclaredErr port5001)
        started)) = []"
  by (simp add: askRedirect_def resumed_def effectsOf_def scenario_defs js_defs Let_def)

section \<open>Ports plugin: declared ports\<close>

text \<open>
  Nothing makes the port numbers of \<open>workspacePorts\<close> pairwise different, and the
  lookup of \<open>onOpenPort\<close> stops at the first entry with the number of the opened port:
  that entry alone decides.
\<close>

text \<open>
  C4, as amended. A port opened on a wildcard interface, where the first declared entry
  with its number has a server name beginning \<open>theia-redirect-\<close>: \<open>onOpenPort\<close>
  resolves with no effect at all, so no prompt of any kind, and leaves both module
  variables, the pool among them, as they were.
\<close>

theorem onOpenPort_reserved:
  assumes wildcard: "interfaceListen port = LISTEN_ALL_IPV4 \<or> interfaceListen port = LISTEN_ALL_IPV6"
    and first: "find (\<lambda>workspacePort. WorkspacePort.portNumber workspacePort = toString (portNumber port))
                  (workspacePorts s) = Some wp"
    and reserved: "startsWith (serverName wp) SERVER_REDIRECT_PATTERN"
  shows "onOpenPort h port s = (Inr (), s, [])"
  using assms by (auto simp add: onOpenPort_def)

text \<open>The reserved port 9000 of the scenario, opened on the IPv6 wildcard.\<close>

theorem onOpenPort_reserved_witness:
  "(interfaceListen port9000 = LISTEN_ALL_IPV4 \<or> interfaceListen port9000 = LISTEN_ALL_IPV6) \<and>
   find (\<lambda>workspacePort. WorkspacePort.portNumber workspacePort = toString (portNumber port9000))
     (workspacePorts started) = Some redirect1 \<and>
   startsWith (serverName redirect1) SERVER_REDIRECT_PATTERN \<and>
   onOpenPort acceptingUser port9000 started = (Inr (), started, [])"
proof -
  have a: "interfaceListen port9000 = LISTEN_ALL_IPV4 \<or> interfaceListen port9000 = LISTEN_ALL_IPV6"
    by (simp add: port9000_def LISTEN_ALL_IPV6_def)
  have b: "find (\<lambda>workspacePort. WorkspacePort.portNumber workspacePort = toString (portNumber port9000))
     (workspacePorts started) = Some redirect1"
    by (simp add: started_def webapp_def redirect1_def port9000_def js_defs)
  have c: "startsWith (serverName redirect1) SERVER_REDIRECT_PATTERN"
    by (simp add: redirect1_def js_defs)
  from onOpenPort_reserved [OF a b c] a b c show ?thesis by simp
qed

text \<open>
  C4 as the specification words it asks only that some declared entry with the number
  be reserved. Here port 3000 is declared twice, first as the web application and then
  as the reserved \<open>theia-redirect-x\<close>: the opened port 3000 has the number of a
  declared reserved entry, and the open-link prompt of the web application is shown.
\<close>

theorem onOpenPort_reserved_counterexample:
  "(interfaceListen port3000 = LISTEN_ALL_IPV4 \<or> interfaceListen port3000 = LISTEN_ALL_IPV6) \<and>
   redirect3000 \<in> set (workspacePorts reservedSecond) \<and>
   WorkspacePort.portNumber redirect3000 = toString (portNumber port3000) \<and>
   startsWith (serverName redirect3000) SERVER_REDIRECT_PATTERN \<and>
   effectsOf (onOpenPort dismissingUser port3000 reservedSecond) =
     [ShowInformationMessage ''A process is now listening on port 3000. External URL is https://x/3000''
        True [\<lparr>title = ''Open Link''\<rparr>],
      ConsoleInfo ''The port 3000 is now listening on interface 0.0.0.0'']"
  by (simp add: onOpenPort_def effectsOf_def openLinkMsg_def openTrace_def scenario_defs js_defs Let_def)

text \<open>
  C5, as amended. A port opened on a wildcard interface, where the first declared entry
  with its number has a server name not beginning \<open>theia-redirect-\<close>: \<open>onOpenPort\<close>
  shows one information message, modal like every other message of the plugin, that
  ends with the entry's URL and offers \<open>Open Link\<close>; it runs the command
  \<open>mini-browser.openUrl\<close> on that URL exactly when the user picks \<open>Open Link\<close>; it
  writes the trace; and it leaves both module variables, the pool among them, as they
  were.
\<close>

theorem onOpenPort_declared_modal:
  assumes wildcard: "interfaceListen port = LISTEN_ALL_IPV4 \<or> interfaceListen port = LISTEN_ALL_IPV6"
    and first: "find (\<lambda>workspacePort. WorkspacePort.portNumber workspacePort = toString (portNumber port))
                  (workspacePorts s) = Some wp"
    and public: "\<not> startsWith (serverName wp) SERVER_REDIRECT_PATTERN"
  shows "onOpenPort h port s =
           (Inr (), s,
            [ShowInformationMessage (openLinkMsg wp) True [\<lparr>title = ''Open Link''\<rparr>]] @
            (if picked (answer h (openLinkMsg wp) [\<lparr>title = ''Open Link''\<rparr>]) ''Open Link''
             then [ExecuteCommand ''mini-browser.openUrl'' (url wp)] else []) @
            [ConsoleInfo (openTrace port)]) \<and>
         suffix (url wp) (openLinkMsg wp)"
proof -
  from assms
  have "onOpenPort h port s =
           (Inr (), s,
            [ShowInformationMessage (openLinkMsg wp) True [\<lparr>title = ''Open Link''\<rparr>]] @
            (if picked (answer h (openLinkMsg wp) [\<lparr>title = ''Open Link''\<rparr>]) ''Open Link''
             then [ExecuteCommand ''mini-browser.openUrl'' (url wp)] else []) @
            [ConsoleInfo (openTrace port)])"
    by (auto simp add: onOpenPort_def Let_def)
  moreover have "suffix (url wp) (openLinkMsg wp)"
    unfolding openLinkMsg_def by (metis append.assoc suffixI)
  ultimately show ?thesis by simp
qed

text \<open>
  The end-to-end scenario: port 3000 on \<open>0.0.0.0\<close>, once with a user who picks
  \<open>Open Link\<close> and once with a user who dismisses the message.
\<close>

theorem onOpenPort_declared_modal_witness:
  "(interfaceListen port3000 = LISTEN_ALL_IPV4 \<or> interfaceListen port3000 = LISTEN_ALL_IPV6) \<and>
   find (\<lambda>workspacePort. WorkspacePort.portNumber workspacePort = toString (portNumber port3000))
     (workspacePorts started) = Some webapp \<and>
   \<not> startsWith (serverName webapp) SERVER_REDIRECT_PATTERN \<and>
   onOpenPort acceptingUser port3000 started =
     (Inr (), started,
      [ShowInformationMessage (openLinkMsg webapp) True [\<lparr>title = ''Open Link''\<rparr>],
       ExecuteCommand ''mini-browser.openUrl'' ''https://x/3000'',
       ConsoleInfo (openTrace port3000)]) \<and>
   onOpenPort dismissingUser port3000 started =
     (Inr (), started,
      [ShowInformationMessage (openLinkMsg webapp) True [\<lparr>title = ''Open Link''\<rparr>],
       ConsoleInfo (openTrace port3000)])"
proof -
  have a: "interfaceListen port3000 = LISTEN_ALL_IPV4 \<or> interfaceListen port3000 = LISTEN_ALL_IPV6"
    by (simp add: port3000_def LISTEN_ALL_IPV4_def)
  have b: "find (\<lambda>workspacePort. WorkspacePort.portNumber workspacePort = toString (portNumber port3000))
     (workspacePorts started) = Some webapp"
    by (simp add: started_def webapp_def redirect1_def port3000_def js_defs)
  have e: "\<not> startsWith (serverName webapp) SERVER_REDIRECT_PATTERN"
    by (simp add: webapp_def js_defs)
  have f: "picked (answer acceptingUser (openLinkMsg webapp) [\<lparr>title = ''Open Link''\<rparr>]) ''Open Link''"
    by (simp add: acceptingUser_def picked_def)
  have g: "\<not> picked (answer dismissingUser (openLinkMsg webapp) [\<lparr>title = ''Open Link''\<rparr>]) ''Open Link''"
    by (simp add: dismissingUser_def picked_def)
  have u: "url webapp = ''https://x/3000''" by (simp add: webapp_def)
  from onOpenPort_declared_modal [OF a b e, of acceptingUser]
    onOpenPort_declared_modal [OF a b e, of dismissingUser] a b e f g u
  show ?thesis by simp
qed

text \<open>
  C5 as the specification words it asks for a non-blocking confirmation, for any
  declared entry with the number that is not reserved. In the end-to-end scenario the
  only message shown is passed \<open>modal: true\<close>, and no effect is a message that is not
  modal. And where port 3000 is declared twice, first as the reserved
  \<open>theia-redirect-x\<close> and then as the web application, the opened port 3000 has the
  number of a declared entry that is not reserved, and nothing is shown.
\<close>

theorem onOpenPort_declared_counterexample:
  "(interfaceListen port3000 = LISTEN_ALL_IPV4 \<or> interfaceListen port3000 = LISTEN_ALL_IPV6) \<and>
   webapp \<in> set (workspacePorts started) \<and>
   WorkspacePort.portNumber webapp = toString (portNumber port3000) \<and>
   \<not> startsWith (serverName webapp) SERVER_REDIRECT_PATTERN \<and>
   effectsOf (onOpenPort acceptingUser port3000 started) =
     [ShowInformationMessage ''A process is now listening on port 3000. External URL is https://x/3000''
        True [\<lparr>title = ''Open Link''\<rparr>],
      ExecuteCommand ''mini-browser.openUrl'' ''https://x/3000'',
      ConsoleInfo ''The port 3000 is now listening on interface 0.0.0.0''] \<and>
   \<not> list_ex isNonModalMessage (effectsOf (onOpenPort acceptingUser port3000 started)) \<and>
   webapp \<in> set (workspacePorts reservedFirst) \<and>
   onOpenPort acceptingUser port3000 reservedFirst = (Inr (), reservedFirst, [])"
  by (simp add: onOpenPort_def effectsOf_def openLinkMsg_def openTrace_def scenario_defs js_defs Let_def)

section \<open>Ports plugin: the trace\<close>

text \<open>
  C6, as amended. The trace \<open>The port ... is now listening on interface ...\<close> is the
  last statement of \<open>onOpenPort\<close>. For a port opened on a wildcard interface it is
  written, once and as the last effect, after the open-link prompt, that is when the
  first declared entry with the number is not reserved, and after the redirect flow of a
  port that no entry declares, provided that flow resolves. When the first declared
  entry with the number is reserved nothing is written: the function returns first, with
  no effect.
\<close>

theorem onOpenPort_trace:
  assumes wildcard: "interfaceListen port = LISTEN_ALL_IPV4 \<or> interfaceListen port = LISTEN_ALL_IPV6"
  shows "(find (\<lambda>workspacePort. WorkspacePort.portNumber workspacePort = toString (portNumber port))
            (workspacePorts s) = Some wp \<and>
          \<not> startsWith (serverName wp) SERVER_REDIRECT_PATTERN \<longrightarrow>
            filter isConsoleInfo (effectsOf (onOpenPort h port s)) = [ConsoleInfo (openTrace port)] \<and>
            last (effectsOf (onOpenPort h port s)) = ConsoleInfo (openTrace port)) \<and>
         (find (\<lambda>workspacePort. WorkspacePort.portNumber workspacePort = toString (portNumber port))
            (workspacePorts s) = None \<and>
          settled (onOpenPort h port s) = Inr () \<longrightarrow>
            filter isConsoleInfo (effectsOf (onOpenPort h port s)) = [ConsoleInfo (openTrace port)] \<and>
            last (effectsOf (onOpenPort h port s)) = ConsoleInfo (openTrace port)) \<and>
         (find (\<lambda>workspacePort. WorkspacePort.portNumber workspacePort = toString (portNumber port))
            (workspacePorts s) = Some wp \<and>
          startsWith (serverName wp) SERVER_REDIRECT_PATTERN \<longrightarrow>
            effectsOf (onOpenPort h port s) = [])"
proof -
  let ?found = "find (\<lambda>workspacePort. WorkspacePort.portNumber workspacePort = toString (portNumber port))
                  (workspacePorts s)"
  let ?traced = "filter isConsoleInfo (effectsOf (onOpenPort h port s)) = [ConsoleInfo (openTrace port)] \<and>
                 last (effectsOf (onOpenPort h port s)) = ConsoleInfo (openTrace port)"
  have public: ?traced
    if "?found = Some wp" and "\<not> startsWith (serverName wp) SERVER_REDIRECT_PATTERN"
    using wildcard that by (auto simp add: onOpenPort_def effectsOf_def Let_def)
  have reserved: "effectsOf (onOpenPort h port s) = []"
    if "?found = Some wp" and "startsWith (serverName wp) SERVER_REDIRECT_PATTERN"
    using wildcard that by (auto simp add: onOpenPort_def effectsOf_def)
  have undeclared: ?traced
    if nf: "?found = None" and resolved: "settled (onOpenPort h port s) = Inr ()"
  proof -
    obtain r s' effs where
      a: "askRedirect h port (undeclaredDesc port) (undeclaredErr port) s = (r, s', effs)"
      by (cases "askRedirect h port (undeclaredDesc port) (undeclaredErr port) s") auto
    from askRedirect_no_trace [of h port "undeclaredDesc port" "undeclaredErr port" s] a
    have quiet: "filter isConsoleInfo effs = []" by (simp add: effectsOf_def)
    from onOpenPort_not_found [OF wildcard nf a] resolved have "r = Inr ()"
      by (simp add: settled_def)
    with onOpenPort_not_found [OF wildcard nf a] quiet show ?thesis
      by (simp add: effectsOf_def)
  qed
  from public undeclared reserved show ?thesis by blast
qed

text \<open>
  The declared port 3000, the undeclared port 5000 and the reserved port 9000 of the
  scenarios, all on a wildcard interface.
\<close>

theorem onOpenPort_trace_witness:
  "(interfaceListen port3000 = LISTEN_ALL_IPV4 \<or> interfaceListen port3000 = LISTEN_ALL_IPV6) \<and>
   (interfaceListen port5000 = LISTEN_ALL_IPV4 \<or> interfaceListen port5000 = LISTEN_ALL_IPV6) \<and>
   (interfaceListen port9000 = LISTEN_ALL_IPV4 \<or> interfaceListen port9000 = LISTEN_ALL_IPV6) \<and>
   find (\<lambda>workspacePort. WorkspacePort.portNumber workspacePort = toString (portNumber port3000))
     (workspacePorts started) = Some webapp \<and>
   \<not> startsWith (serverName webapp) SERVER_REDIRECT_PATTERN \<and>
   last (effectsOf (onOpenPort dismissingUser port3000 started)) = ConsoleInfo (openTrace port3000) \<and>
   find (\<lambda>workspacePort. WorkspacePort.portNumber workspacePort = toString (portNumber port5000))
     (workspacePorts started) = None \<and>
   settled (onOpenPort acceptingUser port5000 started) = Inr () \<and>
   last (effectsOf (onOpenPort acceptingUser port5000 started)) = ConsoleInfo (openTrace port5000) \<and>
   find (\<lambda>workspacePort. WorkspacePort.portNumber workspacePort = toString (portNumber port9000))
     (workspacePorts started) = Some redirect1 \<and>
   startsWith (serverName redirect1) SERVER_REDIRECT_PATTERN \<and>
   effectsOf (onOpenPort acceptingUser port9000 started) = []"
proof -
  have a: "interfaceListen port3000 = LISTEN_ALL_IPV4 \<or> interfaceListen port3000 = LISTEN_ALL_IPV6"
    by (simp add: port3000_def LISTEN_ALL_IPV4_def)
  have a': "interfaceListen port5000 = LISTEN_ALL_IPV4 \<or> interfaceListen port5000 = LISTEN_ALL_IPV6"
    by (simp add: port5000_def LISTEN_ALL_IPV4_def)
  have a'': "interfaceListen port9000 = LISTEN_ALL_IPV4 \<or> interfaceListen port9000 = LISTEN_ALL_IPV6"
    by (simp add: port9000_def LISTEN_ALL_IPV6_def)
  have b: "find (\<lambda>workspacePort. WorkspacePort.portNumber workspacePort = toString (portNumber port3000))
     (workspacePorts started) = Some webapp"
    by (simp add: started_def webapp_def redirect1_def port3000_def js_defs)
  have c: "\<not> startsWith (serverName webapp) SERVER_REDIRECT_PATTERN"
    by (simp add: webapp_def js_defs)
  have d: "find (\<lambda>workspacePort. WorkspacePort.portNumber workspacePort = toString (portNumber port5000))
     (workspacePorts started) = None"
    by (simp add: started_def webapp_def redirect1_def port5000_def js_defs)
  have e: "settled (onOpenPort acceptingUser port5000 started) = Inr ()"
    by (simp add: onOpenPort_def askRedirect_def resumed_def settled_def scenario_defs js_defs Let_def)
  have f: "find (\<lambda>workspacePort. WorkspacePort.portNumber workspacePort = toString (portNumber port9000))
     (workspacePorts started) = Some redirect1"
    by (simp add: started_def webapp_def redirect1_def port9000_def js_defs)
  have g: "startsWith (serverName redirect1) SERVER_REDIRECT_PATTERN"
    by (simp add: redirect1_def js_defs)
  from onOpenPort_trace [OF a, of started webapp dismissingUser]
    onOpenPort_trace [OF a', of started webapp acceptingUser]
    onOpenPort_trace [OF a'', of started redirect1 acceptingUser] a a' a'' b c d e f g
  show ?thesis by simp
qed

text \<open>
  C6 as the specification words it has every way through \<open>onOpenPort\<close> write the trace,
  the silent return for a reserved port included. The reserved port 9000 opened on the
  IPv6 wildcard: \<open>onOpenPort\<close> has no effect, and so writes no trace. Nor is a trace
  written for port 3000 where it is declared first as the reserved \<open>theia-redirect-x\<close>
  and then as the web application.
\<close>

theorem onOpenPort_trace_counterexample:
  "(interfaceListen port9000 = LISTEN_ALL_IPV4 \<or> interfaceListen port9000 = LISTEN_ALL_IPV6) \<and>
   redirect1 \<in> set (workspacePorts started) \<and>
   WorkspacePort.portNumber redirect1 = toString (portNumber port9000) \<and>
   startsWith (serverName redirect1) SERVER_REDIRECT_PATTERN \<and>
   onOpenPort acceptingUser port9000 started = (Inr (), started, []) \<and>
   \<not> list_ex isConsoleInfo (effectsOf (onOpenPort acceptingUser port9000 started)) \<and>
   (interfaceListen port3000 = LISTEN_ALL_IPV4 \<or> interfaceListen port3000 = LISTEN_ALL_IPV6) \<and>
   webapp \<in> set (workspacePorts reservedFirst) \<and>
   WorkspacePort.portNumber webapp = toString (portNumber port3000) \<and>
   \<not> startsWith (serverName webapp) SERVER_REDIRECT_PATTERN \<and>
   \<not> list_ex isConsoleInfo (effectsOf (onOpenPort acceptingUser port3000 reservedFirst))"
  by (simp add: onOpenPort_def effectsOf_def scenario_defs js_defs)

section \<open>Ports plugin: start\<close>

text \<open>
  C7. When the fetch of the workspace ports resolves with \<open>ports\<close>, \<open>start\<close> resolves,
  \<open>workspacePorts\<close> is \<open>ports\<close> itself, in its order, and \<open>redirectPorts\<close> is the
  filter of \<open>workspacePorts\<close> by the test that the server name begins
  \<open>theia-redirect-\<close>: it holds exactly the entries that pass, in the order of
  \<open>workspacePorts\<close>. A later \<open>askRedirect\<close>, which pops from the pool, leaves
  \<open>workspacePorts\<close> equal to \<open>ports\<close>.
\<close>

theorem start_partition:
  "settled (start (Inr ports) s) = Inr () \<and>
   workspacePorts (stateOf (start (Inr ports) s)) = ports \<and>
   redirectPorts (stateOf (start (Inr ports) s)) =
     filter (\<lambda>port. startsWith (serverName port) SERVER_REDIRECT_PATTERN)
       (workspacePorts (stateOf (start (Inr ports) s))) \<and>
   (\<forall>wp. wp \<in> set (redirectPorts (stateOf (start (Inr ports) s))) \<longleftrightarrow>
      wp \<in> set ports \<and> startsWith (serverName wp) ''theia-redirect-'') \<and>
   subseq (redirectPorts (stateOf (start (Inr ports) s))) ports \<and>
   workspacePorts (stateOf (askRedirect h port rm em (stateOf (start (Inr ports) s)))) = ports"
  by (simp add: askRedirect_workspacePorts)
    (simp add: start_def settled_def stateOf_def SERVER_REDIRECT_PATTERN_def)

text \<open>The declared ports of the end-to-end scenario.\<close>

theorem start_partition_witness:
  "stateOf (start (Inr [webapp, redirect1]) exhausted) = started \<and>
   workspacePorts (stateOf (start (Inr [webapp, redirect1]) exhausted)) = [webapp, redirect1] \<and>
   redirectPorts (stateOf (start (Inr [webapp, redirect1]) exhausted)) = [redirect1]"
proof -
  have "filter (\<lambda>port. startsWith (serverName port) SERVER_REDIRECT_PATTERN) [webapp, redirect1]
          = [redirect1]"
    by (simp add: webapp_def redirect1_def js_defs)
  moreover have "stateOf (start (Inr [webapp, redirect1]) exhausted) = started"
    by (simp add: start_def stateOf_def started_def webapp_def redirect1_def js_defs)
  ultimately show ?thesis
    using start_partition [of "[webapp, redirect1]" exhausted] by simp
qed

section \<open>Credentials service\<close>

text \<open>
  C8. \<open>getPassword\<close> never reads its account: for every service, every two accounts
  and every answer of the remote side, \<open>getPassword\<close> settles as \<open>findPassword\<close>
  does, with the same calls, and so as \<open>getPassword\<close> for any other account. When
  the listing resolves, both yield the \<open>password\<close> entry of the first listed secret
  whose name begins with the service: \<open>undefined\<close> when no listed secret has such a
  name, and a \<open>TypeError\<close> when that first secret carries no data.
\<close>

theorem getPassword_is_findPassword:
  "getPassword svc a1 r = findPassword svc r \<and>
   getPassword svc a1 r = getPassword svc a2 r \<and>
   (getWorkspaceId r = Inr ns \<and> listNamespacedSecret r ns = Inr items \<longrightarrow>
      fst (getPassword svc a1 r) =
        (case filter (nameStartsWith svc) items of
           [] \<Rightarrow> Inr None
         | item # rest \<Rightarrow>
             (case data item of None \<Rightarrow> Inl TypeError | Some d \<Rightarrow> Inr (d ''password''))))"
proof -
  have same: "getPassword svc a r = findPassword svc r" for a
    by (simp add: getPassword_def findPassword_def)
  have first: "fst (findPassword svc r) =
        (case filter (nameStartsWith svc) items of
           [] \<Rightarrow> Inr None
         | item # rest \<Rightarrow>
             (case data item of None \<Rightarrow> Inl TypeError | Some d \<Rightarrow> Inr (d ''password'')))"
    if "getWorkspaceId r = Inr ns" and "listNamespacedSecret r ns = Inr items"
    using that by (simp add: findPassword_def find_filter split: list.splits)
  from same first show ?thesis by simp
qed

text \<open>The password of \<open>bob\<close> at \<open>git\<close>, asked for on behalf of \<open>alice\<close>.\<close>

theorem getPassword_is_findPassword_witness:
  "getWorkspaceId cluster = Inr ''ws1'' \<and>
   listNamespacedSecret cluster ''ws1'' = Inr [secretBody ''git'' ''bob'' ''pw''] \<and>
   getPassword ''git'' ''alice'' cluster = findPassword ''git'' cluster \<and>
   fst (getPassword ''git'' ''alice'' cluster) = Inr (Some ''pw'')"
proof -
  have a: "getWorkspaceId cluster = Inr ''ws1''" by (simp add: getWorkspaceId_def cluster_def)
  have b: "listNamespacedSecret cluster ''ws1'' = Inr [secretBody ''git'' ''bob'' ''pw'']"
    by (simp add: cluster_def)
  have c: "nameStartsWith ''git'' (secretBody ''git'' ''bob'' ''pw'')"
    by (simp add: nameStartsWith_def secretBody_def secretName_def startsWith_def)
  have d: "data (secretBody ''git'' ''bob'' ''pw'') = Some [''password'' \<mapsto> ''pw'']"
    by (simp add: secretBody_def)
  note t = getPassword_is_findPassword [of "''git''" "''alice''" cluster "''bob''" "''ws1''"
      "[secretBody ''git'' ''bob'' ''pw'']"]
  from t [THEN conjunct2, THEN conjunct2] a b c d
  have v: "fst (getPassword ''git'' ''alice'' cluster) = Inr (Some ''pw'')" by simp
  from t [THEN conjunct1] v a b show ?thesis by simp
qed

text \<open>
  C9. \<open>setPassword\<close> resolves exactly when the workspace is known and the cluster
  creates the secret, and then its calls are the creation followed by the firing of the
  change event with its service and account; when it rejects, the event is not fired.
  \<open>deletePassword\<close> returns \<open>true\<close> exactly when the workspace is known and the
  cluster deletes the secret, and then its calls are the deletion followed by the firing
  of the event with its service and account; when it returns \<open>false\<close>, on any error,
  the event is not fired.
\<close>

theorem change_event_after_mutation:
  "(fst (setPassword svc acct pwd r) = Inr () \<longleftrightarrow>
      (\<exists>ns. getWorkspaceId r = Inr ns \<and> createNamespacedSecret r ns (secretBody svc acct pwd) = None)) \<and>
   (fst (setPassword svc acct pwd r) = Inr () \<longrightarrow>
      (\<exists>ns. snd (setPassword svc acct pwd r) =
         [CreateNamespacedSecret ns (secretBody svc acct pwd),
          Fire \<lparr>service = svc, CredentialsChangeEvent.account = acct\<rparr>])) \<and>
   (fst (setPassword svc acct pwd r) \<noteq> Inr () \<longrightarrow>
      filter isFire (snd (setPassword svc acct pwd r)) = []) \<and>
   (fst (deletePassword svc acct r) \<longleftrightarrow>
      (\<exists>ns. getWorkspaceId r = Inr ns \<and> deleteNamespacedSecret r (secretName svc acct) ns = None)) \<and>
   (fst (deletePassword svc acct r) \<longrightarrow>
      (\<exists>ns. snd (deletePassword svc acct r) =
         [DeleteNamespacedSecret (secretName svc acct) ns,
          Fire \<lparr>service = svc, CredentialsChangeEvent.account = acct\<rparr>])) \<and>
   (\<not> fst (deletePassword svc acct r) \<longrightarrow>
      filter isFire (snd (deletePassword svc acct r)) = [])"
  by (auto simp add: setPassword_def deletePassword_def split: sum.splits option.splits)

text \<open>A cluster that accepts the two mutations, and one that refuses them.\<close>

theorem change_event_after_mutation_witness:
  "setPassword ''git'' ''bob'' ''pw'' cluster =
     (Inr (), [CreateNamespacedSecret ''ws1'' (secretBody ''git'' ''bob'' ''pw''),
               Fire \<lparr>service = ''git'', CredentialsChangeEvent.account = ''bob''\<rparr>]) \<and>
   setPassword ''git'' ''bob'' ''pw'' refusingCluster =
     (Inl (Rejected ''403''), [CreateNamespacedSecret ''ws1'' (secretBody ''git'' ''bob'' ''pw'')]) \<and>
   deletePassword ''git'' ''bob'' cluster =
     (True, [DeleteNamespacedSecret ''git_bob'' ''ws1'',
             Fire \<lparr>service = ''git'', CredentialsChangeEvent.account = ''bob''\<rparr>]) \<and>
   deletePassword ''git'' ''bob'' refusingCluster =
     (False, [DeleteNamespacedSecret ''git_bob'' ''ws1'', ConsoleError (Rejected ''404'')])"
proof -
  have a: "setPassword ''git'' ''bob'' ''pw'' cluster =
     (Inr (), [CreateNamespacedSecret ''ws1'' (secretBody ''git'' ''bob'' ''pw''),
               Fire \<lparr>service = ''git'', CredentialsChangeEvent.account = ''bob''\<rparr>])"
    by (simp add: setPassword_def getWorkspaceId_def cluster_def)
  have b: "setPassword ''git'' ''bob'' ''pw'' refusingCluster =
     (Inl (Rejected ''403''), [CreateNamespacedSecret ''ws1'' (secretBody ''git'' ''bob'' ''pw'')])"
    by (simp add: setPassword_def getWorkspaceId_def refusingCluster_def)
  have c: "deletePassword ''git'' ''bob'' cluster =
     (True, [DeleteNamespacedSecret ''git_bob'' ''ws1'',
             Fire \<lparr>service = ''git'', CredentialsChangeEvent.account = ''bob''\<rparr>])"
    by (simp add: deletePassword_def getWorkspaceId_def cluster_def secretName_def)
  have d: "deletePassword ''git'' ''bob'' refusingCluster =
     (False, [DeleteNamespacedSecret ''git_bob'' ''ws1'', ConsoleError (Rejected ''404'')])"
    by (simp add: deletePassword_def getWorkspaceId_def refusingCluster_def secretName_def)
  from change_event_after_mutation [of "''git''" "''bob''" "''pw''" cluster]
    change_event_after_mutation [of "''git''" "''bob''" "''pw''" refusingCluster] a b c d
  show ?thesis by simp
qed

text \<open>
  C10, as amended. Let \<open>setPassword\<close> have resolved after creating its secret in the
  namespace \<open>ns\<close>, and let a later listing of \<open>ns\<close>, the namespace of the workspace
  then, hold that secret. If every listed secret whose name begins with the service
  carries data, \<open>findCredentials\<close> for the service resolves with a list that holds the
  account and the password: the account is the name \<open>service_account\<close> without its
  first \<open>service.length + 1\<close> characters.
\<close>

theorem credentials_round_trip:
  assumes stored: "fst (setPassword svc acct pwd r0) = Inr ()"
    and created: "CreateNamespacedSecret ns body \<in> set (snd (setPassword svc acct pwd r0))"
    and workspace: "getWorkspaceId r = Inr ns"
    and listed: "listNamespacedSecret r ns = Inr items" "body \<in> set items"
    and readable: "\<forall>secret \<in> set items. nameStartsWith svc secret \<longrightarrow> data secret \<noteq> None"
  shows "\<exists>creds. fst (findCredentials svc r) = Inr creds \<and>
           \<lparr>account = substring (secretName svc acct) (length svc + 1), password = Some pwd\<rparr>
             \<in> set creds \<and>
           \<lparr>account = acct, password = Some pwd\<rparr> \<in> set creds"
proof -
  from created have body: "body = secretBody svc acct pwd"
    by (auto simp add: setPassword_def split: sum.splits option.splits)
  let ?kept = "filter (nameStartsWith svc) items"
  from readable have "\<forall>x \<in> set ?kept. \<exists>y. toCredential svc x = Inr y"
    using toCredential_defined by auto
  from mapThrowing_total [OF this] obtain creds where
    creds: "mapThrowing (toCredential svc) ?kept = Inr creds"
    and all: "\<forall>x \<in> set ?kept. \<forall>y. toCredential svc x = Inr y \<longrightarrow> y \<in> set creds"
    by blast
  from listed body have "secretBody svc acct pwd \<in> set ?kept"
    by (simp add: nameStartsWith_secretBody)
  with all toCredential_secretBody have "\<lparr>account = acct, password = Some pwd\<rparr> \<in> set creds"
    by blast
  moreover from workspace listed creds have "fst (findCredentials svc r) = Inr creds"
    by (simp add: findCredentials_def)
  ultimately show ?thesis by (simp add: substring_secretName)
qed

text \<open>The secret of \<open>bob\<close> at \<open>git\<close>, alone in its namespace.\<close>

theorem credentials_round_trip_witness:
  "fst (setPassword ''git'' ''bob'' ''pw'' cluster) = Inr () \<and>
   CreateNamespacedSecret ''ws1'' (secretBody ''git'' ''bob'' ''pw'')
     \<in> set (snd (setPassword ''git'' ''bob'' ''pw'' cluster)) \<and>
   getWorkspaceId cluster = Inr ''ws1'' \<and>
   listNamespacedSecret cluster ''ws1'' = Inr [secretBody ''git'' ''bob'' ''pw''] \<and>
   fst (findCredentials ''git'' cluster) = Inr [\<lparr>account = ''bob'', password = Some ''pw''\<rparr>]"
proof -
  have a: "fst (setPassword ''git'' ''bob'' ''pw'' cluster) = Inr ()"
    by (simp add: setPassword_def getWorkspaceId_def cluster_def)
  have b: "CreateNamespacedSecret ''ws1'' (secretBody ''git'' ''bob'' ''pw'')
     \<in> set (snd (setPassword ''git'' ''bob'' ''pw'' cluster))"
    by (simp add: setPassword_def getWorkspaceId_def cluster_def)
  have c: "getWorkspaceId cluster = Inr ''ws1''" by (simp add: getWorkspaceId_def cluster_def)
  have d: "listNamespacedSecret cluster ''ws1'' = Inr [secretBody ''git'' ''bob'' ''pw'']"
    by (simp add: cluster_def)
  have e: "secretBody ''git'' ''bob'' ''pw'' \<in> set [secretBody ''git'' ''bob'' ''pw'']" by simp
  have f: "\<forall>secret \<in> set [secretBody ''git'' ''bob'' ''pw''].
             nameStartsWith ''git'' secret \<longrightarrow> data secret \<noteq> None"
    by (simp add: secretBody_def)
  have g: "fst (findCredentials ''git'' cluster) = Inr [\<lparr>account = ''bob'', password = Some ''pw''\<rparr>]"
    by (simp add: findCredentials_def getWorkspaceId_def cluster_def
      nameStartsWith_def toCredential_def secretBody_def secretName_def startsWith_def substring_def)
  from credentials_round_trip [OF a b c d e f] a b c d g show ?thesis by simp
qed

text \<open>
  C10 as first worded puts no condition on the other secrets of the namespace. Here the
  secret of \<open>bob\<close> at \<open>git\<close> is stored and listed, next to a secret \<open>github-token\<close>
  that carries no data: its name begins with \<open>git\<close>, the mapping reads the password
  through its absent data, and \<open>findCredentials\<close> rejects with a \<open>TypeError\<close> instead
  of returning a list.
\<close>

theorem credentials_round_trip_counterexample:
  "setPassword ''git'' ''bob'' ''pw'' cluster =
     (Inr (), [CreateNamespacedSecret ''ws1'' (secretBody ''git'' ''bob'' ''pw''),
               Fire \<lparr>service = ''git'', CredentialsChangeEvent.account = ''bob''\<rparr>]) \<and>
   getWorkspaceId clusterWithToken = Inr ''ws1'' \<and>
   listNamespacedSecret clusterWithToken ''ws1'' = Inr [secretBody ''git'' ''bob'' ''pw'', tokenSecret] \<and>
   findCredentials ''git'' clusterWithToken = (Inl TypeError, [ListNamespacedSecret ''ws1''])"
  by (simp add: setPassword_def findCredentials_def getWorkspaceId_def cluster_def clusterWithToken_def
      nameStartsWith_def toCredential_def secretBody_def secretName_def tokenSecret_def startsWith_def)

end
